theory Spec2Isabelle
  imports Complex_Main
begin

section \<open>Solar position and mean radiant temperature of thermofeel\<close>

text \<open>
  The definitions follow \<^verbatim>\<open>src/ThermoFeel.py\<close>. Python floats are read as real
  numbers, Python ints as integers. The source runs on Python 3, whose \<^verbatim>\<open>/\<close>
  is true division also between two ints, so every \<^verbatim>\<open>/\<close> of the source is the
  division of the reals here.
\<close>

subsection \<open>Calendar\<close>

definition to_radians :: real where
  "to_radians = pi / 180"

text \<open>\<^verbatim>\<open>__julian_date(d, m, y)\<close>: one expression, every quotient taken with \<^verbatim>\<open>/\<close>.\<close>

definition julian_date :: "int \<Rightarrow> int \<Rightarrow> int \<Rightarrow> real" where
  "julian_date d m y =
     real_of_int d - 32075
       + 1461 * (real_of_int y + 4800 + (real_of_int m - 14) / 12) / 4
       + 367 * (real_of_int m - 2 - (real_of_int m - 14) / 12 * 12) / 12
       - 3 * ((real_of_int y + 4900 + (real_of_int m - 14) / 12) / 100) / 4"

text \<open>
  The same expression with every \<^verbatim>\<open>/\<close> read as a division of integers, to compare
  the readings at the reference date; neither is what the source computes. With floor
  division, as the specification words it:
\<close>

definition julian_date_floor :: "int \<Rightarrow> int \<Rightarrow> int \<Rightarrow> int" where
  "julian_date_floor d m y =
     d - 32075
       + 1461 * (y + 4800 + (m - 14) div 12) div 4
       + 367 * (m - 2 - (m - 14) div 12 * 12) div 12
       - 3 * ((y + 4900 + (m - 14) div 12) div 100) div 4"

text \<open>
  With division that truncates towards zero, as the integer formula of Fliegel and
  Van Flandern is written for Fortran:
\<close>

definition tdiv :: "int \<Rightarrow> int \<Rightarrow> int" where
  "tdiv a b = (if (a < 0) = (b < 0) then \<bar>a\<bar> div \<bar>b\<bar> else - (\<bar>a\<bar> div \<bar>b\<bar>))"

definition julian_date_trunc :: "int \<Rightarrow> int \<Rightarrow> int \<Rightarrow> int" where
  "julian_date_trunc d m y =
     d - 32075
       + tdiv (1461 * (y + 4800 + tdiv (m - 14) 12)) 4
       + tdiv (367 * (m - 2 - tdiv (m - 14) 12 * 12)) 12
       - tdiv (3 * (tdiv (y + 4900 + tdiv (m - 14) 12) 100)) 4"

subsection \<open>Solar declination\<close>

text \<open>
  \<^verbatim>\<open>__declination_angle(jd, h)\<close>. The fractional year \<open>g\<close> in degrees, the loop
  \<^verbatim>\<open>while (g > 360): g = g - 360\<close>, and the two Fourier series evaluated at
  \<open>grad = g * to_radians\<close>.
\<close>

definition fractional_year :: "real \<Rightarrow> real \<Rightarrow> real" where
  "fractional_year jd h = (360 / 365.25) * (jd + (h / 24))"

function while_g :: "real \<Rightarrow> real" where
  "while_g g = (if g > 360 then while_g (g - 360) else g)"
  by pat_completeness auto
termination
proof (relation "measure (\<lambda>g. nat \<lceil>g / 360\<rceil>)")
  show "wf (measure (\<lambda>g. nat \<lceil>g / 360\<rceil>))" by simp
next
  fix g :: real
  assume "360 < g"
  then have "1 < g / 360" by simp
  then have "1 < \<lceil>g / 360\<rceil>" by linarith
  moreover have "\<lceil>(g - 360) / 360\<rceil> = \<lceil>g / 360\<rceil> - 1"
    by (simp add: diff_divide_distrib)
  ultimately show "(g - 360, g) \<in> measure (\<lambda>g. nat \<lceil>g / 360\<rceil>)" by simp
qed

declare while_g.simps [simp del]

definition declination_angle :: "real \<Rightarrow> real \<Rightarrow> real \<times> real" where
  "declination_angle jd h =
    (let g = fractional_year jd h;
         g = while_g g;
         grad = g * to_radians;
         d = 0.396372 - 22.91327 * cos grad + 4.02543 * sin grad - 0.387205 * cos (2 * grad)
             + 0.051967 * sin (2 * grad) - 0.154527 * cos (3 * grad) + 0.084798 * sin (3 * grad);
         tc = 0.004297 + 0.107029 * cos grad - 1.837877 * sin grad
             - 0.837378 * cos (2 * grad) - 2.340475 * sin (2 * grad)
     in (d, tc))"

text \<open>
  The pair of series of \<^verbatim>\<open>__declination_angle\<close> as a function of \<open>grad\<close> alone, to
  state that it has period \<open>2 * pi\<close>.
\<close>

definition fourier_series :: "real \<Rightarrow> real \<times> real" where
  "fourier_series grad =
    (0.396372 - 22.91327 * cos grad + 4.02543 * sin grad - 0.387205 * cos (2 * grad)
       + 0.051967 * sin (2 * grad) - 0.154527 * cos (3 * grad) + 0.084798 * sin (3 * grad),
     0.004297 + 0.107029 * cos grad - 1.837877 * sin grad
       - 0.837378 * cos (2 * grad) - 2.340475 * sin (2 * grad))"

text \<open>
  The same loop with a bound on the number of tests of its condition: \<open>None\<close> when
  the bound is used up before the condition fails.
\<close>

fun while_g_fuel :: "nat \<Rightarrow> real \<Rightarrow> real option" where
  "while_g_fuel 0 g = None"
| "while_g_fuel (Suc n) g = (if g > 360 then while_g_fuel n (g - 360) else Some g)"

subsection \<open>Instantaneous cosine of the solar zenith angle\<close>


subsection \<open>Integrated cosine of the solar zenith angle\<close>

text \<open>The inner function \<^verbatim>\<open>horizon\<close>, recursive in \<open>rrange\<close>.\<close>

function horizon :: "real \<Rightarrow> real \<Rightarrow> real \<Rightarrow> real \<Rightarrow> real \<Rightarrow> real \<Rightarrow> real \<times> real" where
  "horizon val rrange lonrad zsolartimestart zsolartimeend maxx =
    (if val < rrange * pi then
       (zsolartimestart + lonrad - ((rrange - 1) * pi),
        zsolartimeend + lonrad - ((rrange - 1) * pi))
     else if rrange < maxx then
       horizon val (rrange + 2) lonrad zsolartimestart zsolartimeend maxx
     else
       (zsolartimestart + lonrad - (maxx + 1) * pi,
        zsolartimeend + lonrad - (maxx + 1) * pi))"
  by pat_completeness auto
termination
proof (relation "measure (\<lambda>(val, rrange, lonrad, zsolartimestart, zsolartimeend, maxx).
                            nat \<lceil>maxx - rrange\<rceil>)")
  show "wf (measure (\<lambda>(val, rrange, lonrad, zsolartimestart, zsolartimeend, maxx).
                            nat \<lceil>maxx - rrange\<rceil>))" by simp
next
  fix val rrange lonrad zsolartimestart zsolartimeend maxx :: real
  assume "rrange < maxx"
  then have "0 < \<lceil>maxx - rrange\<rceil>" by linarith
  moreover have "\<lceil>maxx - (rrange + 2)\<rceil> = \<lceil>maxx - rrange\<rceil> - 2"
  proof -
    have "maxx - (rrange + 2) = maxx - rrange - 2" by simp
    then show ?thesis by (metis ceiling_diff_numeral)
  qed
  ultimately show "((val, rrange + 2, lonrad, zsolartimestart, zsolartimeend, maxx),
                    (val, rrange, lonrad, zsolartimestart, zsolartimeend, maxx))
        \<in> measure (\<lambda>(val, rrange, lonrad, zsolartimestart, zsolartimeend, maxx).
                            nat \<lceil>maxx - rrange\<rceil>)"
    by simp
qed

declare horizon.simps [simp del]

text \<open>
  \<^verbatim>\<open>horizon\<close> with a bound on the depth of the recursion: \<open>None\<close> when more
  than \<open>n\<close> nested calls would be needed.
\<close>

fun horizon_fuel ::
  "nat \<Rightarrow> real \<Rightarrow> real \<Rightarrow> real \<Rightarrow> real \<Rightarrow> real \<Rightarrow> real \<Rightarrow> (real \<times> real) option" where
  "horizon_fuel 0 val rrange lonrad zsolartimestart zsolartimeend maxx = None"
| "horizon_fuel (Suc n) val rrange lonrad zsolartimestart zsolartimeend maxx =
    (if val < rrange * pi then
       Some (zsolartimestart + lonrad - ((rrange - 1) * pi),
             zsolartimeend + lonrad - ((rrange - 1) * pi))
     else if rrange < maxx then
       horizon_fuel n val (rrange + 2) lonrad zsolartimestart zsolartimeend maxx
     else
       Some (zsolartimestart + lonrad - (maxx + 1) * pi,
             zsolartimeend + lonrad - (maxx + 1) * pi))"

text \<open>
  The horizon resolution as the specification words it: an explicit loop over
  \<open>r = 2, 4, ..., 100\<close> that stops at the first \<open>r\<close> with \<open>val < r * pi\<close> and shifts
  both bounds by \<open>lon_rad - (r - 1) * pi\<close>; when no \<open>r\<close> up to 100 resolves, the shift
  is \<open>lon_rad - 101 * pi\<close>.
\<close>

fun horizon_loop_from :: "nat list \<Rightarrow> real \<Rightarrow> nat option" where
  "horizon_loop_from [] val = None"
| "horizon_loop_from (r # rs) val =
    (if val < real r * pi then Some r else horizon_loop_from rs val)"

definition horizon_loop :: "real \<Rightarrow> real \<Rightarrow> real \<Rightarrow> real \<Rightarrow> real \<times> real" where
  "horizon_loop val lon_rad t_start t_end =
    (case horizon_loop_from (map (\<lambda>k. 2 * k) [1..<51]) val of
       Some r \<Rightarrow> (t_start + (lon_rad - (real r - 1) * pi), t_end + (lon_rad - (real r - 1) * pi))
     | None \<Rightarrow> (t_start + (lon_rad - 101 * pi), t_end + (lon_rad - 101 * pi)))"

text \<open>
  The inner function \<^verbatim>\<open>solar_zenith_angle_average\<close>. It reads \<open>maxx\<close> from the
  enclosing function, which is its first argument here. The assignment \<^verbatim>\<open>PMU0 = 0\<close>
  under the test of the sunset angles is kept, although the \<^verbatim>\<open>if\<close> that follows
  assigns \<open>PMU0\<close> again on both branches.
\<close>

definition solar_zenith_angle_average ::
  "real \<Rightarrow> real \<Rightarrow> real \<Rightarrow> real \<Rightarrow> real \<Rightarrow> real \<Rightarrow> real \<Rightarrow> real \<Rightarrow> real" where
  "solar_zenith_angle_average maxx lonrad zcoshouranglesunset zsindecsinlat zcosdeccoslat
       zsolartimestart zsolartimeend sha =
    (let PMU0 = (0 :: real) in
     if zcoshouranglesunset \<le> 1 then
       let (zhouranglestart, zhourangleend) =
             horizon (sha * pi / 180 + lonrad) 2 lonrad zsolartimestart zsolartimeend maxx;
           (PMU0, zhouranglestart, zhourangleend) =
             (if zcoshouranglesunset \<ge> - 1 then
                let zhouranglesunset = arccos zcoshouranglesunset;
                    PMU0 = (if zhourangleend \<le> - zhouranglesunset
                               \<or> zhouranglestart \<ge> zhouranglesunset then 0 else PMU0);
                    zhouranglestart = max (- zhouranglesunset) (min zhouranglestart zhouranglesunset);
                    zhourangleend = max (- zhouranglesunset) (min zhourangleend zhouranglesunset)
                in (PMU0, zhouranglestart, zhourangleend)
              else (PMU0, zhouranglestart, zhourangleend))
       in if (zhourangleend - zhouranglestart) > 1 / 10 ^ 8 then
            max 0 (zsindecsinlat
                   + (zcosdeccoslat * (sin zhourangleend - sin zhouranglestart))
                     / (zhourangleend - zhouranglestart))
          else 0
     else PMU0)"

text \<open>
  The sunset cosine of \<^verbatim>\<open>calculate_cos_solar_zenith_angle_integrated\<close> as a function
  of the declination \<open>d\<close> in degrees and the latitude in radians:
  \<^verbatim>\<open>ztandec\<close> and \<^verbatim>\<open>zcoshouranglesunset\<close>, both denominators floored at \<open>1e-12\<close>.
\<close>

definition ztandec :: "real \<Rightarrow> real" where
  "ztandec d = sin (d * pi / 180) / max (cos (d * pi / 180)) (1 / 10 ^ 12)"

definition zcoshouranglesunset :: "real \<Rightarrow> real \<Rightarrow> real" where
  "zcoshouranglesunset d latrad = - ztandec d * sin latrad / max (cos latrad) (1 / 10 ^ 12)"

text \<open>
  \<^verbatim>\<open>calculate_cos_solar_zenith_angle_integrated\<close> at one grid point
  (\<^verbatim>\<open>np.vectorize\<close> applies the inner function point by point). The table of
  offsets, the first value of \<open>hh\<close> and the assignments that replace them are all kept
  in the order of the source.
\<close>

definition calculate_cos_solar_zenith_angle_integrated ::
  "real \<Rightarrow> real \<Rightarrow> int \<Rightarrow> int \<Rightarrow> int \<Rightarrow> real \<Rightarrow> real \<Rightarrow> real \<Rightarrow> real" where
  "calculate_cos_solar_zenith_angle_integrated lat lon y m d h base step =
    (let maxx = (0 :: real);
         base_offset = (0 :: real);
         h_offset = (0 :: real);
         step_offset = (0 :: real);
         base_offset = (if base = 0 then 0 else base_offset);
         base_offset = (if base = 6 then 594 else base_offset);
         base_offset = (if base = 18 then 1806 else base_offset);
         base_offset = (if base = 12 then 1212 else base_offset);
         (h_offset, maxx) = (if step = 1 then (0.5, 32) else (h_offset, maxx));
         (h_offset, maxx) = (if step = 3 then (1.5, 14) else (h_offset, maxx));
         (h_offset, maxx) = (if step = 6 then (3, 100) else (h_offset, maxx));
         hh = h - base_offset - h_offset;
         hh = h;
         maxx = 100;
         jd_d = julian_date d m y;
         jd11 = julian_date 1 1 y;
         jd = jd_d - jd11 + 1;
         (d, tc) = declination_angle jd hh;
         drad = d * to_radians;
         sha = (hh - 12) * 15 + (lon + 180) / 2 + tc;
         latrad = lat * to_radians;
         lonrad = (lon + 180) / 2 * to_radians;
         accumulationperiod = step;
         zhalftimestep = (2 * pi) / 24 * accumulationperiod / 2;
         zsolartimestart = sha * pi / 180 - zhalftimestep;
         zsolartimeend = sha * pi / 180 + zhalftimestep;
         zcoshouranglesunset = zcoshouranglesunset d latrad;
         zsindecsinlat = sin (d * pi / 180) * sin latrad;
         zcosdeccoslat = cos (d * pi / 180) * cos latrad
     in solar_zenith_angle_average maxx lonrad zcoshouranglesunset zsindecsinlat zcosdeccoslat
          zsolartimestart zsolartimeend sha)"

subsection \<open>Mean radiant temperature\<close>

text \<open>
  The six arguments of \<^verbatim>\<open>calculate_mean_radiant_temperature\<close> are numpy arrays of one
  shape, which the caller still holds after the call. An array is a function from the
  grid index to the value there, and the six of them are the state the call starts from
  and leaves behind.
\<close>

record 'i arrays =
  ssrd :: "'i \<Rightarrow> real"
  ssr :: "'i \<Rightarrow> real"
  fdir :: "'i \<Rightarrow> real"
  strd :: "'i \<Rightarrow> real"
  strr :: "'i \<Rightarrow> real"
  cossza :: "'i \<Rightarrow> real"

text \<open>
  numpy returns NaN, and raises nothing, for \<^verbatim>\<open>np.arcsin\<close> outside \<open>[-1, 1]\<close> and for
  \<^verbatim>\<open>np.power\<close> of a negative base with the exponent \<open>0.25\<close>; NaN is \<open>None\<close>.
\<close>

definition np_arcsin :: "real \<Rightarrow> real option" where
  "np_arcsin x = (if - 1 \<le> x \<and> x \<le> 1 then Some (arcsin x) else None)"

definition np_power :: "real \<Rightarrow> real \<Rightarrow> real option" where
  "np_power x p = (if x < 0 then None else Some (x powr p))"

definition kelvin_to_celcius :: "real \<Rightarrow> real" where
  "kelvin_to_celcius t2m = t2m - 273.15"

text \<open>
  The call returns the array \<open>mrt\<close> and leaves the arrays as its second component:
  \<^verbatim>\<open>fdir[csza_filter1] = fdir[csza_filter1]/cossza[csza_filter1]\<close> writes into the
  caller's \<open>fdir\<close>. \<open>dsw\<close> is computed before that assignment and the product
  \<open>fp * fdir\<close> after it.
\<close>

definition calculate_mean_radiant_temperature ::
  "'i arrays \<Rightarrow> ('i \<Rightarrow> real option) \<times> 'i arrays" where
  "calculate_mean_radiant_temperature s =
    (let dsw = (\<lambda>i. ssrd s i - fdir s i);
         rsw = (\<lambda>i. ssrd s i - ssr s i);
         lur = (\<lambda>i. strd s i - strr s i);
         gamma = (\<lambda>i. map_option (\<lambda>a. a * 180 / pi) (np_arcsin (cossza s i)));
         fp = (\<lambda>i. map_option (\<lambda>g. 0.308 * cos (pi / 180) * g * 0.998 - g * g / 50000) (gamma i));
         csza_filter1 = (\<lambda>i. cossza s i > 0.01);
         s = s\<lparr>fdir := (\<lambda>i. if csza_filter1 i then fdir s i / cossza s i else fdir s i)\<rparr>;
         mrtcal = (\<lambda>i. Option.bind (fp i) (\<lambda>fp.
                     np_power ((1 / 0.0000000567)
                               * (0.5 * strd s i + 0.5 * lur i
                                  + (0.7 / 0.97) * (0.5 * dsw i + 0.5 * rsw i + fp * fdir s i)))
                              0.25));
         mrt = mrtcal;
         mrt = (\<lambda>i. map_option kelvin_to_celcius (mrt i))
     in (mrt, s))"

section \<open>Results\<close>

subsection \<open>The Julian date\<close>

lemma julian_date_linear:
  "julian_date d m y =
     real_of_int d + (146097 / 400) * (real_of_int y + (real_of_int m - 14) / 12) + 1721455 + 1 / 4"
  by (simp add: julian_date_def field_simps)

lemma julian_date_floor_reference: "julian_date_floor 1 1 2000 = 2451547"
  by (simp add: julian_date_floor_def)

lemma day_of_year_eq:
  "julian_date d m y - julian_date 1 1 y + 1 = real_of_int d + (146097 / 4800) * (real_of_int m - 1)"
  by (simp add: julian_date_linear field_simps)

lemma julian_date_trunc_reference: "julian_date_trunc 1 1 2000 = 2451545"
  by (simp add: julian_date_trunc_def tdiv_def)

lemma day_of_year_first_march: "julian_date 1 3 2021 - julian_date 1 1 2021 + 1 = 61.87375"
  by (simp add: day_of_year_eq)

text \<open>
  C1: the Julian day is claimed to be an integer for every date, and 2451545 on
  1 January 2000. \<^verbatim>\<open>__julian_date\<close> takes every quotient of the integer formula with
  \<^verbatim>\<open>/\<close>, and on that date it returns \<open>2451545.570625\<close>, which is neither 2451545 nor
  an integer.
\<close>

theorem julian_date_reference_value:
  "julian_date 1 1 2000 = 2451545.570625
   \<and> julian_date 1 1 2000 \<noteq> 2451545
   \<and> julian_date 1 1 2000 \<notin> \<int>"
proof -
  have v: "julian_date 1 1 2000 = 3922472913 / 1600"
    by (simp add: julian_date_def)
  have "(3922472913 / 1600 :: real) \<notin> \<int>"
  proof
    assume "(3922472913 / 1600 :: real) \<in> \<int>"
    then obtain k :: int where k: "(3922472913 / 1600 :: real) = of_int k"
      by (auto elim: Ints_cases)
    then have "real_of_int (1600 * k) = real_of_int 3922472913" by simp
    then have "1600 * k = 3922472913" by (simp only: of_int_eq_iff)
    then have "(1600 * k) mod 1600 = 3922472913 mod 1600" by simp
    then show False by simp
  qed
  moreover have "(3922472913 / 1600 :: real) = 2451545.570625" by simp
  moreover have "(3922472913 / 1600 :: real) \<noteq> 2451545" by simp
  ultimately show ?thesis unfolding v by blast
qed

subsection \<open>The horizon recursion\<close>

lemma horizon_loop_from_step:
  assumes "1 \<le> k" "k \<le> 50"
  shows "horizon val (2 * real k) lonrad ts te 100 =
    (case horizon_loop_from (map (\<lambda>k. 2 * k) [k..<51]) val of
       Some r \<Rightarrow> (ts + (lonrad - (real r - 1) * pi), te + (lonrad - (real r - 1) * pi))
     | None \<Rightarrow> (ts + (lonrad - 101 * pi), te + (lonrad - 101 * pi)))"
  using assms
proof (induction "50 - k" arbitrary: k)
  case 0
  then have k: "k = 50" by simp
  show ?case
    by (subst horizon.simps) (simp add: k algebra_simps)
next
  case (Suc n)
  then have lt: "k < 50" and n: "n = 50 - Suc k" by simp_all
  have up: "[k..<51] = k # [Suc k..<51]"
    using lt by (simp add: upt_conv_Cons)
  have IH: "horizon val (2 * real (Suc k)) lonrad ts te 100 =
    (case horizon_loop_from (map (\<lambda>k. 2 * k) [Suc k..<51]) val of
       Some r \<Rightarrow> (ts + (lonrad - (real r - 1) * pi), te + (lonrad - (real r - 1) * pi))
     | None \<Rightarrow> (ts + (lonrad - 101 * pi), te + (lonrad - 101 * pi)))"
    using Suc.hyps(1)[OF n] lt by simp
  have r2: "2 * real k + 2 = 2 * real (Suc k)" by simp
  have small: "2 * real k < 100" using lt by simp
  show ?case
  proof (cases "val < 2 * real k * pi")
    case True
    have "horizon val (2 * real k) lonrad ts te 100 =
        (ts + lonrad - ((2 * real k - 1) * pi), te + lonrad - ((2 * real k - 1) * pi))"
      by (subst horizon.simps) (simp add: True)
    moreover have "horizon_loop_from (map (\<lambda>k. 2 * k) [k..<51]) val = Some (2 * k)"
      using True by (simp add: up)
    ultimately show ?thesis by simp
  next
    case False
    have "horizon val (2 * real k) lonrad ts te 100 = horizon val (2 * real k + 2) lonrad ts te 100"
      by (subst horizon.simps) (simp add: False small)
    moreover have "horizon_loop_from (map (\<lambda>k. 2 * k) [k..<51]) val
        = horizon_loop_from (map (\<lambda>k. 2 * k) [Suc k..<51]) val"
      using False by (simp add: up)
    ultimately show ?thesis
      by (simp only: r2 IH)
  qed
qed

text \<open>
  C5: called as the source calls it, with \<open>rrange = 2\<close> and \<open>maxx = 100\<close>, the recursion
  returns the pair of bounds that the loop over \<open>r = 2, 4, ..., 100\<close> returns: shifted by
  \<open>lon_rad - (r - 1) * pi\<close> at the first \<open>r\<close> with \<open>val < r * pi\<close>, and by
  \<open>lon_rad - 101 * pi\<close> when there is none.
\<close>

theorem horizon_refines_loop:
  "horizon val 2 lon_rad t_start t_end 100 = horizon_loop val lon_rad t_start t_end"
  using horizon_loop_from_step [of 1 val lon_rad t_start t_end]
  by (simp add: horizon_loop_def)

lemma horizon_fuel_enough:
  "maxx - rrange \<le> 2 * real n \<Longrightarrow>
   horizon_fuel (Suc n) val rrange lonrad ts te maxx = Some (horizon val rrange lonrad ts te maxx)"
proof (induction n arbitrary: rrange)
  case 0
  then have "\<not> rrange < maxx" by simp
  then show ?case by (subst horizon.simps) simp
next
  case (Suc n)
  then have "maxx - (rrange + 2) \<le> 2 * real n" by simp
  from Suc.IH [OF this] show ?case
    by (subst horizon.simps) simp
qed

lemma while_g_fuel_enough:
  "g \<le> 360 * real (Suc n) \<Longrightarrow> while_g_fuel (Suc n) g = Some (while_g g)"
proof (induction n arbitrary: g)
  case 0
  then show ?case by (subst while_g.simps) simp
next
  case (Suc n)
  then have "g - 360 \<le> 360 * real (Suc n)" by simp
  from Suc.IH [OF this] show ?case
    by (subst while_g.simps) simp
qed

text \<open>
  C9: the two loops of \<^verbatim>\<open>calculate_cos_solar_zenith_angle_integrated\<close> end. Called with
  \<open>rrange = 2\<close> and \<open>maxx = 100\<close>, \<^verbatim>\<open>horizon\<close> returns within 50 nested calls, whatever
  \<open>val\<close> is; and the loop of \<^verbatim>\<open>__declination_angle\<close> ends after finitely many
  subtractions for every real \<open>g\<close>.
\<close>

theorem horizon_terminates_within_50:
  "horizon_fuel 50 val 2 lonrad ts te 100 = Some (horizon val 2 lonrad ts te 100)
   \<and> (\<exists>n. while_g_fuel n g = Some (while_g g))"
proof
  have "horizon_fuel (Suc 49) val 2 lonrad ts te 100 = Some (horizon val 2 lonrad ts te 100)"
    by (rule horizon_fuel_enough) simp
  then show "horizon_fuel 50 val 2 lonrad ts te 100 = Some (horizon val 2 lonrad ts te 100)"
    by simp
next
  obtain n :: nat where "g / 360 \<le> real n"
    using real_arch_simple by blast
  then have "g \<le> 360 * real (Suc n)" by simp
  then have "while_g_fuel (Suc n) g = Some (while_g g)" by (rule while_g_fuel_enough)
  then show "\<exists>n. while_g_fuel n g = Some (while_g g)" by blast
qed

subsection \<open>The declination\<close>

lemma while_g_le: "while_g g \<le> 360"
proof (induction g rule: while_g.induct)
  case (1 g)
  then show ?case by (subst while_g.simps) simp
qed

lemma while_g_pos: "0 < g \<Longrightarrow> 0 < while_g g"
proof (induction g rule: while_g.induct)
  case (1 g)
  then show ?case by (subst while_g.simps) simp
qed

lemma while_g_shift: "\<exists>k::nat. while_g g = g - 360 * real k"
proof (induction g rule: while_g.induct)
  case (1 g)
  show ?case
  proof (cases "g > 360")
    case True
    with 1 obtain k :: nat where "while_g (g - 360) = g - 360 - 360 * real k" by blast
    then have "while_g g = g - 360 * real (Suc k)"
      using True by (subst while_g.simps) simp
    then show ?thesis by blast
  next
    case False
    then have "while_g g = g - 360 * real (0::nat)"
      by (subst while_g.simps) simp
    then show ?thesis by blast
  qed
qed

text \<open>
  C8, as stated: the wrapped angle lies in \<open>[0, 360)\<close>. The loop runs while \<open>g > 360\<close>,
  so \<open>g = 360\<close> is left as it is: on day 365 at hour 6 the fractional year is exactly 360
  and stays 360.
\<close>

theorem fractional_year_wrap_counterexample:
  "while_g (fractional_year 365 6) = 360 \<and> \<not> while_g (fractional_year 365 6) < 360"
proof -
  have "fractional_year 365 6 = 360" by (simp add: fractional_year_def)
  moreover have "while_g 360 = 360" by (subst while_g.simps) simp
  ultimately show ?thesis by simp
qed

text \<open>
  C8, amended: for \<open>day_of_year \<ge> 1\<close> and \<open>hour \<ge> 0\<close> the loop brings the fractional
  year into the half-open interval \<open>(0, 360]\<close>, by subtracting 360 a whole number of
  times.
\<close>

theorem fractional_year_wrapped:
  assumes "1 \<le> jd" "0 \<le> h"
  shows "0 < while_g (fractional_year jd h) \<and> while_g (fractional_year jd h) \<le> 360
    \<and> (\<exists>k::nat. while_g (fractional_year jd h) = fractional_year jd h - 360 * real k)"
proof -
  have "0 < fractional_year jd h"
    using assms by (simp add: fractional_year_def)
  then show ?thesis
    using while_g_pos while_g_le while_g_shift by blast
qed

theorem fractional_year_wrapped_witness:
  "(1::real) \<le> 365 \<and> (0::real) \<le> 6
    \<and> 0 < while_g (fractional_year 365 6) \<and> while_g (fractional_year 365 6) \<le> 360
    \<and> (\<exists>k::nat. while_g (fractional_year 365 6) = fractional_year 365 6 - 360 * real k)"
  using fractional_year_wrapped [of 365 6] by simp

lemma cos_shift: "cos (x + 2 * pi * of_int j) = cos (x::real)"
  by (simp add: cos_add)

lemma sin_shift: "sin (x + 2 * pi * of_int j) = sin (x::real)"
  by (simp add: sin_add)

lemma fourier_series_periodic: "fourier_series (x + 2 * pi * of_int j) = fourier_series x"
proof -
  have 2: "2 * (x + 2 * pi * of_int j) = 2 * x + 2 * pi * of_int (2 * j)"
    by (simp add: algebra_simps)
  have 3: "3 * (x + 2 * pi * of_int j) = 3 * x + 2 * pi * of_int (3 * j)"
    by (simp add: algebra_simps)
  show ?thesis
    unfolding fourier_series_def 2 3 cos_shift sin_shift ..
qed

lemma declination_series:
  "declination_angle jd h = fourier_series (while_g (fractional_year jd h) * to_radians)"
  by (simp add: declination_angle_def fourier_series_def Let_def)

lemma declination_unwrapped:
  "declination_angle jd h = fourier_series (fractional_year jd h * to_radians)"
proof -
  obtain k :: nat where k: "while_g (fractional_year jd h) = fractional_year jd h - 360 * real k"
    using while_g_shift by blast
  have "fractional_year jd h * to_radians
      = while_g (fractional_year jd h) * to_radians + 2 * pi * of_int (int k)"
    by (simp add: k to_radians_def algebra_simps)
  then show ?thesis
    by (simp only: declination_series fourier_series_periodic)
qed

text \<open>
  C10: \<^verbatim>\<open>__declination_angle\<close> has period 365.25 in the day of the year, in both
  components of its result, for every integer \<open>k\<close> (with no condition on the sign of
  \<open>day_of_year + 365.25 * k\<close>): the shift adds \<open>360 * k\<close> to \<open>g\<close>, the loop removes a
  multiple of 360, and both series have period \<open>2 * pi\<close>.
\<close>

theorem declination_periodic:
  "declination_angle (jd + 365.25 * of_int k) h = declination_angle jd h"
proof -
  have "fractional_year (jd + 365.25 * of_int k) h * to_radians
      = fractional_year jd h * to_radians + 2 * pi * of_int k"
    by (simp add: fractional_year_def to_radians_def algebra_simps)
  then show ?thesis
    by (simp only: declination_unwrapped fourier_series_periodic)
qed

subsection \<open>The instantaneous zenith angle\<close>



subsection \<open>The integrated zenith angle\<close>

text \<open>
  C2: the result of \<^verbatim>\<open>calculate_cos_solar_zenith_angle_integrated\<close> does not depend on
  \<open>base\<close>, for any two values of it and so for any two of 0, 6, 12 and 18: the offset
  computed from \<open>base\<close> only enters the first value of \<open>hh\<close>, which \<^verbatim>\<open>hh = h\<close> replaces.
\<close>

theorem integrated_independent_of_base:
  "calculate_cos_solar_zenith_angle_integrated lat lon y m d h b1 step
     = calculate_cos_solar_zenith_angle_integrated lat lon y m d h b2 step"
  unfolding calculate_cos_solar_zenith_angle_integrated_def
  by (simp add: Let_def split_def)

text \<open>
  Bounds for the polar night: \<open>cos x \<ge> 1 - x\<^sup>2 / 2\<close> and, for \<open>x > 0\<close>,
  \<open>sin x \<ge> x - x\<^sup>2 / 2\<close>; with \<open>2 \<le> pi < 4\<close> they place the December declination
  between -28 and -14 degrees.
\<close>

lemma cos_lower:
  fixes x :: real
  shows "1 - x\<^sup>2 / 2 \<le> cos x"
proof -
  have "cos x = cos (2 * (x / 2))" by simp
  also have "\<dots> = 1 - 2 * (sin (x / 2))\<^sup>2" by (rule cos_double_sin)
  finally have c: "cos x = 1 - 2 * (sin (x / 2))\<^sup>2" .
  have "\<bar>sin (x / 2)\<bar> \<le> \<bar>x / 2\<bar>" by (rule abs_sin_x_le_abs_x)
  then have "(sin (x / 2))\<^sup>2 \<le> (x / 2)\<^sup>2" by (simp only: abs_le_square_iff)
  also have "(x / 2)\<^sup>2 = x\<^sup>2 / 4" by (simp add: power2_eq_square)
  finally show ?thesis unfolding c by simp
qed

lemma sin_lower:
  fixes x :: real
  assumes "0 < x"
  shows "x - x\<^sup>2 / 2 \<le> sin x"
proof -
  obtain t where t: "sin x = (\<Sum>m<2. sin_coeff m * x ^ m) + (sin (t + 1/2 * real 2 * pi) / fact 2) * x ^ 2"
    using Maclaurin_sin_expansion3 [of 2 x] assms by auto
  have sum: "(\<Sum>m<2. sin_coeff m * x ^ m) = x"
    by (simp add: numeral_2_eq_2 sin_coeff_Suc)
  have "sin x = x - sin t * x\<^sup>2 / 2"
    using t unfolding sum by (simp add: fact_numeral)
  moreover have "sin t * x\<^sup>2 \<le> 1 * x\<^sup>2"
    by (rule mult_right_mono) simp_all
  ultimately show ?thesis by simp
qed


lemma december_angle:
  assumes "1 \<le> d" "d \<le> 31" "0 \<le> h" "h \<le> 24"
  shows "- 29.03 \<le> fractional_year (julian_date d 12 y - julian_date 1 1 y + 1) h - 360
       \<and> fractional_year (julian_date d 12 y - julian_date 1 1 y + 1) h - 360 \<le> 1.54"
proof -
  define x where "x = real_of_int d"
  have x: "1 \<le> x" "x \<le> 31"
    using assms by (simp_all add: x_def)
  have "fractional_year (julian_date d 12 y - julian_date 1 1 y + 1) h - 360
      = (360 / 365.25) * (x + 334.805625 + h / 24) - 360"
    by (simp add: fractional_year_def day_of_year_eq x_def)
  then show ?thesis
    using x assms(3,4) by simp
qed

lemma series_upper_arith:
  fixes c1 s1 c2 s2 c3 s3 :: real
  assumes "0.79 \<le> c1" "s1 \<le> 0.6452" "- 1 \<le> c2" "s2 \<le> 1" "- 1 \<le> c3" "s3 \<le> 1"
  shows "0.396372 - 22.91327 * c1 + 4.02543 * s1 - 0.387205 * c2
       + 0.051967 * s2 - 0.154527 * c3 + 0.084798 * s3 \<le> - 14"
  using assms by simp

lemma series_lower_arith:
  fixes c1 s1 c2 s2 c3 s3 :: real
  assumes "c1 \<le> 1" "- 1 \<le> s1" "c2 \<le> 1" "- 1 \<le> s2" "c3 \<le> 1" "- 1 \<le> s3"
  shows "- 28 \<le> 0.396372 - 22.91327 * c1 + 4.02543 * s1 - 0.387205 * c2
       + 0.051967 * s2 - 0.154527 * c3 + 0.084798 * s3"
  using assms by simp

lemma declination_lower: "- 28 \<le> fst (fourier_series x)"
  unfolding fourier_series_def fst_conv
  by (rule series_lower_arith) simp_all

lemma declination_upper:
  assumes "- 29.03 \<le> a" "a \<le> 1.54"
  shows "fst (fourier_series (a * pi / 180)) \<le> - 14"
proof -
  define th where "th = a * pi / 180"
  have a: "\<bar>a\<bar> \<le> 29.03" using assms by simp
  define p where "p = \<bar>a\<bar> * pi"
  have "\<bar>a\<bar> * pi \<le> 29.03 * 4"
    by (rule mult_mono) (use a pi_less_4 in simp_all)
  then have p: "p \<le> 29.03 * 4"
    by (simp only: p_def)
  have "\<bar>th\<bar> = p / 180"
    by (simp add: th_def p_def abs_mult)
  then have th: "\<bar>th\<bar> \<le> 0.6452"
    using p by simp
  then have "th\<^sup>2 \<le> 0.6452\<^sup>2"
    using abs_le_square_iff [of th "0.6452"] by simp
  then have c1: "0.79 \<le> cos th"
    using cos_lower [of th] by (simp add: power2_eq_square)
  have s1: "sin th \<le> 0.6452"
    using abs_sin_x_le_abs_x [of th] th by simp
  show ?thesis
    unfolding fourier_series_def fst_conv th_def [symmetric]
    by (rule series_upper_arith [OF c1 s1]) simp_all
qed

lemma december_declination:
  assumes "1 \<le> d" "d \<le> 31" "0 \<le> h" "h \<le> 24"
  shows "- 28 \<le> fst (declination_angle (julian_date d 12 y - julian_date 1 1 y + 1) h)
       \<and> fst (declination_angle (julian_date d 12 y - julian_date 1 1 y + 1) h) \<le> - 14"
proof -
  define g where "g = fractional_year (julian_date d 12 y - julian_date 1 1 y + 1) h"
  have "g * to_radians = (g - 360) * pi / 180 + 2 * pi * of_int 1"
    by (simp add: to_radians_def field_simps)
  then have "fourier_series (g * to_radians) = fourier_series ((g - 360) * pi / 180)"
    by (simp only: fourier_series_periodic)
  then have eq: "declination_angle (julian_date d 12 y - julian_date 1 1 y + 1) h
      = fourier_series ((g - 360) * pi / 180)"
    by (simp only: declination_unwrapped g_def)
  have "- 29.03 \<le> g - 360" "g - 360 \<le> 1.54"
    using december_angle [OF assms, of y] by (simp_all only: g_def)
  then have "fst (fourier_series ((g - 360) * pi / 180)) \<le> - 14"
    by (rule declination_upper)
  then show ?thesis
    unfolding eq using declination_lower by blast
qed

lemma pole_sunset_cosine:
  assumes "- 28 \<le> dd" "dd \<le> - 14"
  shows "1 < zcoshouranglesunset dd (90 * to_radians)"
proof -
  define x where "x = - (dd * pi / 180)"
  define q where "q = (- dd) * pi"
  have "14 * 2 \<le> (- dd) * pi"
    by (rule mult_mono) (use assms pi_ge_two in simp_all)
  then have ql: "28 \<le> q"
    by (simp add: q_def)
  have "(- dd) * pi \<le> 28 * 4"
    by (rule mult_mono) (use assms pi_less_4 in simp_all)
  then have qu: "q \<le> 112"
    by (simp add: q_def)
  have xq: "x = q / 180"
    by (simp add: x_def q_def)
  have xl: "0.155 \<le> x" using ql by (simp add: xq)
  have xu: "x \<le> 0.63" using qu by (simp add: xq)
  define sq where "sq = x * x"
  have "x * x \<le> 0.63 * x"
    by (rule mult_right_mono) (use xl xu in simp_all)
  then have "sq \<le> 0.63 * x"
    by (simp only: sq_def)
  then have "0.1 \<le> x - sq / 2"
    using xl by simp
  then have "0.1 \<le> x - x\<^sup>2 / 2"
    by (simp only: sq_def power2_eq_square)
  moreover have "x - x\<^sup>2 / 2 \<le> sin x"
    by (rule sin_lower) (use xl in simp)
  ultimately have "0.1 \<le> sin x" by simp
  then have s: "sin (dd * pi / 180) \<le> - 0.1"
    by (simp add: x_def)
  define M where "M = max (cos (dd * pi / 180)) (1 / 10 ^ 12)"
  have M: "0 < M" "M \<le> 1"
    by (simp_all add: M_def)
  define sn where "sn = sin (dd * pi / 180)"
  have zt: "ztandec dd = sn / M"
    by (simp only: ztandec_def M_def sn_def)
  have "sn \<le> - 0.1 * M"
    using s M by (simp add: sn_def)
  then have "sn / M \<le> - 0.1"
    using M(1) by (simp add: pos_divide_le_eq)
  then have t: "ztandec dd \<le> - 0.1"
    by (simp only: zt)
  have "zcoshouranglesunset dd (90 * to_radians) = - ztandec dd * 10 ^ 12"
    by (simp add: zcoshouranglesunset_def to_radians_def)
  then show ?thesis using t by simp
qed

lemma night_average:
  "1 < zc \<Longrightarrow> solar_zenith_angle_average maxx lonrad zc a b ts te sha = 0"
  by (simp add: solar_zenith_angle_average_def)

lemma integrated_night:
  assumes "1 < zcoshouranglesunset
      (fst (declination_angle (julian_date d m y - julian_date 1 1 y + 1) h)) (lat * to_radians)"
  shows "calculate_cos_solar_zenith_angle_integrated lat lon y m d h base step = 0"
  using assms
  by (simp add: calculate_cos_solar_zenith_angle_integrated_def Let_def split_def night_average)

text \<open>
  C6: when the sunset cosine that the source computes (both denominators floored at
  \<open>1e-12\<close>) exceeds 1, \<^verbatim>\<open>calculate_cos_solar_zenith_angle_integrated\<close> returns 0, for
  every hour, step and base. In particular it returns 0 at \<open>lat = 90\<close> in December,
  for every day 1 to 31 of the month, every hour of the day from 0 to 24, every year,
  longitude, base and step: the declination is then at most -14 degrees, and the
  sunset cosine at the pole is at least \<open>1e11\<close>.
\<close>

theorem polar_night_zero:
  "(1 < zcoshouranglesunset
      (fst (declination_angle (julian_date d m y - julian_date 1 1 y + 1) h)) (lat * to_radians)
    \<longrightarrow> calculate_cos_solar_zenith_angle_integrated lat lon y m d h base step = 0)
   \<and> (1 \<le> d' \<and> d' \<le> 31 \<and> 0 \<le> h' \<and> h' \<le> 24
    \<longrightarrow> calculate_cos_solar_zenith_angle_integrated 90 lon' y' 12 d' h' base' step' = 0)"
proof (intro conjI impI)
  assume "1 < zcoshouranglesunset
      (fst (declination_angle (julian_date d m y - julian_date 1 1 y + 1) h)) (lat * to_radians)"
  then show "calculate_cos_solar_zenith_angle_integrated lat lon y m d h base step = 0"
    by (rule integrated_night)
next
  assume a: "1 \<le> d' \<and> d' \<le> 31 \<and> 0 \<le> h' \<and> h' \<le> 24"
  then have "- 28 \<le> fst (declination_angle (julian_date d' 12 y' - julian_date 1 1 y' + 1) h')
       \<and> fst (declination_angle (julian_date d' 12 y' - julian_date 1 1 y' + 1) h') \<le> - 14"
    using december_declination [of d' h' y'] by blast
  then have "1 < zcoshouranglesunset
      (fst (declination_angle (julian_date d' 12 y' - julian_date 1 1 y' + 1) h')) (90 * to_radians)"
    using pole_sunset_cosine by blast
  then show "calculate_cos_solar_zenith_angle_integrated 90 lon' y' 12 d' h' base' step' = 0"
    by (rule integrated_night)
qed

theorem polar_night_zero_witness:
  "1 < zcoshouranglesunset
      (fst (declination_angle (julian_date 15 12 2021 - julian_date 1 1 2021 + 1) 12))
      (90 * to_radians)
   \<and> calculate_cos_solar_zenith_angle_integrated 90 0 2021 12 15 12 0 3 = 0
   \<and> (1::int) \<le> 15 \<and> (15::int) \<le> 31 \<and> (0::real) \<le> 12 \<and> (12::real) \<le> 24
   \<and> calculate_cos_solar_zenith_angle_integrated 90 10 2020 12 15 12 6 1 = 0"
proof -
  have "- 28 \<le> fst (declination_angle (julian_date 15 12 2021 - julian_date 1 1 2021 + 1) 12)
       \<and> fst (declination_angle (julian_date 15 12 2021 - julian_date 1 1 2021 + 1) 12) \<le> - 14"
    by (rule december_declination) simp_all
  then have h: "1 < zcoshouranglesunset
      (fst (declination_angle (julian_date 15 12 2021 - julian_date 1 1 2021 + 1) 12))
      (90 * to_radians)"
    using pole_sunset_cosine by blast
  have r: "(1::int) \<le> 15 \<and> (15::int) \<le> 31 \<and> (0::real) \<le> 12 \<and> (12::real) \<le> 24"
    by simp
  show ?thesis
    using h r
      polar_night_zero [of 15 12 2021 12 90 0 0 3 15 12 10 2020 6 1]
    by blast
qed

subsection \<open>The mean radiant temperature\<close>

text \<open>
  C3, as stated: with \<open>fdir = 0\<close>, \<open>ssr = ssrd\<close> and \<open>cossza = 0\<close> the result does not
  depend on \<open>ssrd\<close>. The product \<open>fp * fdir\<close> is 0 there, but \<open>dsw = ssrd - fdir = ssrd\<close>
  stays in the sum: with all thermal fluxes 0, \<open>ssrd = 0\<close> and \<open>ssrd = 1\<close> give
  different results.
\<close>

theorem mean_radiant_temperature_ssrd_counterexample:
  "fst (calculate_mean_radiant_temperature
          \<lparr>ssrd = (\<lambda>i::unit. 0), ssr = (\<lambda>i. 0), fdir = (\<lambda>i. 0),
           strd = (\<lambda>i. 0), strr = (\<lambda>i. 0), cossza = (\<lambda>i. 0)\<rparr>) ()
   \<noteq> fst (calculate_mean_radiant_temperature
          \<lparr>ssrd = (\<lambda>i::unit. 1), ssr = (\<lambda>i. 1), fdir = (\<lambda>i. 0),
           strd = (\<lambda>i. 0), strr = (\<lambda>i. 0), cossza = (\<lambda>i. 0)\<rparr>) ()"
  by (simp add: calculate_mean_radiant_temperature_def Let_def np_arcsin_def np_power_def
      kelvin_to_celcius_def)

text \<open>
  C3, amended: with \<open>fdir = 0\<close>, \<open>ssr = ssrd\<close> and \<open>cossza = 0\<close> the term \<open>fp * fdir\<close>
  and the reflected term \<open>rsw\<close> vanish, and the result at each grid point is a function
  of \<open>strd\<close>, \<open>strr\<close> and \<open>ssrd\<close> there:
  \<open>((1 / 0.0000000567) * (0.5 * strd + 0.5 * (strd - strr) + (0.7 / 0.97) * 0.5 * ssrd)) ^ 0.25\<close>
  in Kelvin, converted to Celsius (NaN when the base is negative).
\<close>

theorem mean_radiant_temperature_diffuse_only:
  assumes "fdir s = (\<lambda>i. 0)" "ssr s = ssrd s" "cossza s = (\<lambda>i. 0)"
  shows "fst (calculate_mean_radiant_temperature s) i
     = map_option kelvin_to_celcius
         (np_power ((1 / 0.0000000567)
                    * (0.5 * strd s i + 0.5 * (strd s i - strr s i)
                       + (0.7 / 0.97) * (0.5 * ssrd s i))) 0.25)"
proof -
  have base: "(10000000000 * strd s i - 5000000000 * strr s i + 350000000000 * ssrd s i / 97) / 567
      = (1 / 0.0000000567)
        * (0.5 * strd s i + 0.5 * (strd s i - strr s i) + (0.7 / 0.97) * (0.5 * ssrd s i))"
    by (simp add: field_simps)
  have "fst (calculate_mean_radiant_temperature s) i
     = map_option kelvin_to_celcius
         (np_power ((10000000000 * strd s i - 5000000000 * strr s i
                     + 350000000000 * ssrd s i / 97) / 567) 0.25)"
    using assms
    by (simp add: calculate_mean_radiant_temperature_def Let_def np_arcsin_def)
  then show ?thesis
    by (simp only: base)
qed

theorem mean_radiant_temperature_diffuse_only_witness:
  "fdir \<lparr>ssrd = (\<lambda>i::unit. 1), ssr = (\<lambda>i. 1), fdir = (\<lambda>i. 0),
         strd = (\<lambda>i. 0), strr = (\<lambda>i. 0), cossza = (\<lambda>i. 0)\<rparr> = (\<lambda>i. 0)
   \<and> ssr \<lparr>ssrd = (\<lambda>i::unit. 1), ssr = (\<lambda>i. 1), fdir = (\<lambda>i. 0),
         strd = (\<lambda>i. 0), strr = (\<lambda>i. 0), cossza = (\<lambda>i. 0)\<rparr>
     = ssrd \<lparr>ssrd = (\<lambda>i::unit. 1), ssr = (\<lambda>i. 1), fdir = (\<lambda>i. 0),
         strd = (\<lambda>i. 0), strr = (\<lambda>i. 0), cossza = (\<lambda>i. 0)\<rparr>
   \<and> cossza \<lparr>ssrd = (\<lambda>i::unit. 1), ssr = (\<lambda>i. 1), fdir = (\<lambda>i. 0),
         strd = (\<lambda>i. 0), strr = (\<lambda>i. 0), cossza = (\<lambda>i. 0)\<rparr> = (\<lambda>i. 0)
   \<and> fst (calculate_mean_radiant_temperature
          \<lparr>ssrd = (\<lambda>i::unit. 1), ssr = (\<lambda>i. 1), fdir = (\<lambda>i. 0),
           strd = (\<lambda>i. 0), strr = (\<lambda>i. 0), cossza = (\<lambda>i. 0)\<rparr>) ()
     = Some (((1 / 0.0000000567) * ((0.7 / 0.97) * 0.5)) powr 0.25 - 273.15)"
  using mean_radiant_temperature_diffuse_only
    [of "\<lparr>ssrd = (\<lambda>i::unit. 1), ssr = (\<lambda>i. 1), fdir = (\<lambda>i. 0),
           strd = (\<lambda>i. 0), strr = (\<lambda>i. 0), cossza = (\<lambda>i. 0)\<rparr>" "()"]
  by (simp add: np_power_def kelvin_to_celcius_def)

lemma mean_radiant_temperature_frame:
  "snd (calculate_mean_radiant_temperature s)
     = s\<lparr>fdir := (\<lambda>i. if cossza s i > 0.01 then fdir s i / cossza s i else fdir s i)\<rparr>"
  by (simp add: calculate_mean_radiant_temperature_def Let_def)

text \<open>
  C4: the call is claimed to leave all six arrays as they were. With \<open>fdir = 1\<close> and
  \<open>cossza = 1 / 2\<close> at a grid point, the caller's \<open>fdir\<close> holds 2 there after the call:
  the source divides \<open>fdir\<close> by \<open>cossza\<close> in place.
\<close>

theorem mean_radiant_temperature_overwrites_fdir:
  "fdir (snd (calculate_mean_radiant_temperature
          \<lparr>ssrd = (\<lambda>i::unit. 0), ssr = (\<lambda>i. 0), fdir = (\<lambda>i. 1),
           strd = (\<lambda>i. 0), strr = (\<lambda>i. 0), cossza = (\<lambda>i. 1 / 2)\<rparr>)) () = 2
   \<and> fdir \<lparr>ssrd = (\<lambda>i::unit. 0), ssr = (\<lambda>i. 0), fdir = (\<lambda>i. 1),
           strd = (\<lambda>i. 0), strr = (\<lambda>i. 0), cossza = (\<lambda>i. 1 / 2)\<rparr> () = 1"
  by (simp add: calculate_mean_radiant_temperature_def Let_def)

end
